theory Spec2Isabelle
  imports Complex_Main "HOL-Library.Word"
begin

section \<open>Geometry adapters (plotting/bokeh/geometry.py)\<close>

subsection \<open>Numbers of a numpy array\<close>















subsection \<open>The adapters\<close>

text \<open>
  An element with four key dimensions is a table whose rows carry the four
  coordinates. \<open>dimension_values element kd\<close> is the column of key dimension
  \<open>kd\<close>; the adapters only ask for the indices 0 to 3.
\<close>

type_synonym 'a row4 = "'a \<times> 'a \<times> 'a \<times> 'a"

type_synonym style = "(string \<times> string) list"

fun row_value :: "'a row4 \<Rightarrow> nat \<Rightarrow> 'a" where
  "row_value (a, b, c, d) kd =
     (if kd = 0 then a else if kd = 1 then b else if kd = 2 then c else d)"

definition dimension_values :: "'a row4 list \<Rightarrow> nat \<Rightarrow> 'a list" where
  "dimension_values element kd = map (\<lambda>r. row_value r kd) element"

text \<open>\<open>inds = (1, 0, 3, 2) if self.invert_axes else (0, 1, 2, 3)\<close>\<close>

definition inds :: "bool \<Rightarrow> nat \<times> nat \<times> nat \<times> nat" where
  "inds invert_axes = (if invert_axes then (1, 0, 3, 2) else (0, 1, 2, 3))"

text \<open>The data dictionary of the segment glyph, keys \<open>x0, x1, y0, y1\<close>.\<close>

record 'a segment_data =
  seg_x0 :: "'a list"
  seg_x1 :: "'a list"
  seg_y0 :: "'a list"
  seg_y1 :: "'a list"

definition segment_mapping :: "(string \<times> string) list" where
  "segment_mapping = [(''x0'', ''x0''), (''x1'', ''x1''), (''y0'', ''y0''), (''y1'', ''y1'')]"

definition SegmentPlot_get_data ::
  "bool \<Rightarrow> 'a row4 list \<Rightarrow> style \<Rightarrow> 'a segment_data \<times> (string \<times> string) list \<times> style" where
  "SegmentPlot_get_data invert_axes element style =
     (case inds invert_axes of (i0, i1, i2, i3) \<Rightarrow>
        let x0s = dimension_values element i0;
            y0s = dimension_values element i1;
            x1s = dimension_values element i2;
            y1s = dimension_values element i3
        in (\<lparr>seg_x0 = x0s, seg_x1 = x1s, seg_y0 = y0s, seg_y1 = y1s\<rparr>, segment_mapping, style))"






subsection \<open>What the claim about the rectangles says of one pair of corners\<close>
















section \<open>Values, dictionaries and errors\<close>

text \<open>
  Python values as far as the annotators handle them. \<open>PFun v\<close> is a callable
  of no arguments that returns \<open>v\<close> (a default-value factory such as \<open>str\<close>
  is \<open>PFun (PStr [])\<close>); floats are abstracted to reals.
\<close>

datatype pyval = PNone | PBool bool | PInt int | PFloat real | PStr string
  | PArr "pyval list" | PFun pyval

text \<open>A dict with string keys, in insertion order.\<close>

type_synonym pydict = "(string \<times> pyval) list"

text \<open>
  The exceptions of the module. The two \<open>ValueError\<close>s it raises itself are
  told apart by their message (\<open>LayerMsg\<close> for the layer that is neither an
  Annotator nor an element, \<open>AnnotationsMsg\<close> for the column that varies by
  vertex); the others are messages of the calls it makes: \<open>list.remove\<close>
  of a missing item and \<open>param.watch\<close> of a name that is no parameter.
  \<open>LibraryError\<close> stands for an exception raised inside a call of the
  element library (its argument names the call), whatever its class.
\<close>

datatype vmsg =
    LayerMsg
  | AnnotationsMsg "string list"
  | RemoveMsg
  | WatchMsg string

datatype error =
    ValueError vmsg
  | AttributeError string
  | TypeError string
  | KeyError string
  | IndexError
  | LibraryError string

text \<open>Whether the exception is of the class \<open>TypeError\<close>.\<close>

fun is_type_error :: "error \<Rightarrow> bool" where
  "is_type_error (TypeError m) = True"
| "is_type_error e = False"

definition dict_set :: "pydict \<Rightarrow> string \<Rightarrow> pyval \<Rightarrow> pydict" where
  "dict_set d k v =
     (if k \<in> set (map fst d)
      then map (\<lambda>kv. if fst kv = k then (k, v) else kv) d
      else d @ [(k, v)])"

definition dict_update :: "pydict \<Rightarrow> pydict \<Rightarrow> pydict" where
  "dict_update d new = foldl (\<lambda>acc kv. dict_set acc (fst kv) (snd kv)) d new"

text \<open>\<open>dict(k1=v1, ..., **extra)\<close>: a keyword given twice is a \<open>TypeError\<close>.\<close>

definition dict_kwargs :: "pydict \<Rightarrow> pydict \<Rightarrow> error + pydict" where
  "dict_kwargs named extra =
     (if list_ex (\<lambda>k. k \<in> set (map fst named)) (map fst extra)
      then Inl (TypeError ''multiple values for keyword argument'')
      else Inr (named @ extra))"

fun py_call :: "pyval \<Rightarrow> error + pyval" where
  "py_call (PFun v) = Inr v"
| "py_call _ = Inl (TypeError ''object is not callable'')"

fun py_len :: "pyval \<Rightarrow> error + nat" where
  "py_len (PArr vs) = Inr (length vs)"
| "py_len (PStr s) = Inr (length s)"
| "py_len _ = Inl (TypeError ''object has no len()'')"

fun py_first :: "pyval \<Rightarrow> error + pyval" where
  "py_first (PArr (v # vs)) = Inr v"
| "py_first (PArr []) = Inl IndexError"
| "py_first (PStr (c # cs)) = Inr (PStr [c])"
| "py_first (PStr []) = Inl IndexError"
| "py_first _ = Inl (TypeError ''object is not subscriptable'')"

section \<open>Elements, tables and streams (the library side)\<close>

text \<open>
  Modelled from the spec: the element classes (\<open>Path\<close>, \<open>Polygons\<close>,
  \<open>Points\<close>, \<open>Table\<close>), the streams and the links are imported by
  annotators.py from modules that are not at hand. Sections 3 and 6 describe
  an element as a typed dataset with key dimensions and value dimensions
  (per-object or per-vertex attributes) and name the operations the module
  consumes: construction, \<open>add_dimension\<close>, \<open>dimension_values\<close>,
  \<open>split\<close>, \<open>options\<close>, \<open>clone\<close>. An element is modelled by what
  the module observes of it: its type, its key and value dimensions, its data
  (one dict per path of a Path or Polygons, one dict per point of a Points; a
  column holds an array with one value per vertex, or a scalar that stands for
  the same value at every vertex), the datatype of its interface and its
  options.
\<close>

datatype etype = Path | Polygons | Points

record element =
  etype :: etype
  kdims :: "string list"
  vdims :: "string list"
  data :: "pydict list"
  interface_datatype :: string
  options :: pydict

text \<open>
  Modelled from the spec: \<open>isinstance(element, cls)\<close> for the element
  classes, where Polygons is a subclass of Path.
\<close>

definition isinstance_element :: "element \<Rightarrow> etype \<Rightarrow> bool" where
  "isinstance_element e cls = (etype e = cls \<or> (cls = Path \<and> etype e = Polygons))"

text \<open>
  Modelled from the spec: the element constructor \<open>cls(src, datatype=datatypes)\<close>:
  an empty element over \<open>x, y\<close> from \<open>None\<close>, a cast of the given element
  otherwise; the interface is the first datatype of the preference list.
\<close>

definition new_element :: "etype \<Rightarrow> element option \<Rightarrow> string list \<Rightarrow> element" where
  "new_element cls src datatypes =
     (let dt = (case datatypes of [] \<Rightarrow> [] | d # ds \<Rightarrow> d) in
      case src of
        None \<Rightarrow> \<lparr>etype = cls, kdims = [''x'', ''y''], vdims = [], data = [],
                  interface_datatype = dt, options = []\<rparr>
      | Some e \<Rightarrow> e\<lparr>etype := cls, interface_datatype := dt\<rparr>)"

text \<open>
  Modelled from the spec: \<open>col in element\<close>, the element's containment
  test: the column is one of the dimensions.
\<close>

definition contains :: "element \<Rightarrow> string \<Rightarrow> bool" where
  "contains e col = (col \<in> set (kdims e @ vdims e))"

text \<open>
  Modelled from the spec: the scalar test that \<open>add_dimension\<close> applies to
  the given value: \<open>None\<close>, a number or a string is a scalar; a list and a
  callable are not.
\<close>

fun is_scalar :: "pyval \<Rightarrow> bool" where
  "is_scalar (PArr vs) = False"
| "is_scalar (PFun v) = False"
| "is_scalar v = True"

text \<open>
  Modelled from the spec: \<open>element.add_dimension(col, 0, init, True)\<close>: a
  new value dimension at position 0. On an element with tabular data, and on
  one without any data, the value \<open>init\<close> is stored as it is for every
  point or path. On multi-path data a scalar is the value of every path; any
  other value must have a length, equal to the number of paths, and gives each
  path its item; otherwise the call raises.
\<close>

definition add_dimension :: "element \<Rightarrow> string \<Rightarrow> pyval \<Rightarrow> error + element" where
  "add_dimension e col init =
     (if interface_datatype e = ''multitabular'' \<and> data e \<noteq> [] \<and> \<not> is_scalar init
      then (case init of
              PArr vs \<Rightarrow>
                if length vs = length (data e)
                then Inr (e\<lparr>vdims := col # vdims e,
                            data := map2 (\<lambda>d v. (col, v) # d) (data e) vs\<rparr>)
                else Inl (LibraryError ''add_dimension'')
            | other \<Rightarrow> Inl (LibraryError ''add_dimension''))
      else Inr (e\<lparr>vdims := col # vdims e, data := map (\<lambda>d. (col, init) # d) (data e)\<rparr>))"

text \<open>
  Modelled from the spec: \<open>element.options(**opts)\<close>: a copy with the
  options set.
\<close>

definition with_options :: "element \<Rightarrow> pydict \<Rightarrow> element" where
  "with_options e kw = e\<lparr>options := dict_update (options e) kw\<rparr>"

text \<open>
  Modelled from the spec: the values of a column within one path with
  \<open>expanded=False\<close>: each distinct value once; a scalar is one value.
\<close>

fun unique_values :: "pyval \<Rightarrow> pyval list" where
  "unique_values (PArr vs) = remdups vs"
| "unique_values v = [v]"

text \<open>
  Modelled from the spec: \<open>element.dimension_values(col, expanded=False)\<close>:
  the unexpanded values of every path, concatenated, so that a column which is
  constant within every path has one value per path; a column that is no
  dimension is an error.
\<close>

definition dimension_values_unexpanded :: "element \<Rightarrow> string \<Rightarrow> error + pyval list" where
  "dimension_values_unexpanded e col =
     (if contains e col
      then Inr (concat (map (\<lambda>d. case map_of d col of
                                      None \<Rightarrow> [] | Some v \<Rightarrow> unique_values v) (data e)))
      else Inl (KeyError col))"

text \<open>Modelled from the spec: \<open>element.split()\<close>: one element per path.\<close>

definition split_element :: "element \<Rightarrow> element list" where
  "split_element e = map (\<lambda>d. e\<lparr>data := [d]\<rparr>) (data e)"

text \<open>
  Modelled from the spec: \<open>element.clone(parts)\<close>: an element of the same
  kind over the data of the parts.
\<close>

definition clone_element :: "element \<Rightarrow> element list \<Rightarrow> element" where
  "clone_element e parts = e\<lparr>data := concat (map data parts)\<rparr>"

text \<open>Modelled from the spec: \<open>element.iloc[index]\<close>: the rows at the given positions.\<close>

definition iloc :: "element \<Rightarrow> nat list \<Rightarrow> error + element" where
  "iloc e idx =
     (if list_all (\<lambda>i. i < length (data e)) idx
      then Inr (e\<lparr>data := map (\<lambda>i. data e ! i) idx\<rparr>)
      else Inl IndexError)"

text \<open>
  Modelled from the spec: a \<open>Table\<close> is a tabular projection of the value
  dimensions of an element (section 3): its data, key and value dimensions and
  options; \<open>table.opts(**kw)\<close> sets options. A link ties an element to a
  table. A stream records what it was constructed with and its subscribers.
\<close>

datatype table_data = Columns "(string \<times> pyval list) list" | Rows element | NoRows

record table =
  table_data :: table_data
  table_kdims :: "string list"
  table_vdims :: "string list"
  table_options :: pydict

definition table_with_opts :: "table \<Rightarrow> pydict \<Rightarrow> table" where
  "table_with_opts t kw = t\<lparr>table_options := dict_update (table_options t) kw\<rparr>"

datatype link =
    DataLink "element option" table
  | VertexTableLink "element option" table
  | SelectionLink "element option" table

datatype stream_kind = PolyDraw | PolyEdit | PointDraw | BoxEdit

record stream =
  stream_kind :: stream_kind
  source :: "element option"
  stream_data :: "pydict list"
  stream_num_objects :: "int option"
  stream_show_vertices :: bool
  tooltip :: string
  stream_vertex_style :: pydict
  subscribers :: "string list"

text \<open>
  Modelled from the spec: the interaction streams are library code; section 3
  says a stream exposes the current snapshot of the edited geometry as
  \<open>.element\<close>. Here: the source element over the data the stream holds.
\<close>

definition stream_element :: "stream \<Rightarrow> error + element" where
  "stream_element s =
     (case source s of
        None \<Rightarrow> Inl (AttributeError ''clone'')
      | Some e \<Rightarrow> Inr (e\<lparr>data := stream_data s\<rparr>))"

definition add_subscriber :: "stream \<Rightarrow> string \<Rightarrow> stream" where
  "add_subscriber s f = s\<lparr>subscribers := subscribers s @ [f]\<rparr>"

text \<open>
  Modelled from the spec: the \<open>Selection1D\<close> stream: the source it is
  attached to and the selected indices (section 3, an index set over the
  objects of the current element).
\<close>

record selection1d =
  selection_source :: "element option"
  index :: "nat list"

section \<open>Annotators (annotators.py)\<close>

definition err_bind :: "error + 'a \<Rightarrow> ('a \<Rightarrow> error + 'b) \<Rightarrow> error + 'b" where
  "err_bind r f = (case r of Inl e \<Rightarrow> Inl e | Inr v \<Rightarrow> f v)"

text \<open>The concrete annotator classes; \<open>PolyAnnotator\<close> inherits every method of \<open>PathAnnotator\<close>.\<close>

datatype akind = PathAnnotator | PolyAnnotator | PointAnnotator | BoxAnnotator

text \<open>\<open>_element_type\<close>: the class of the \<open>object\<close> parameter.\<close>

fun element_type :: "akind \<Rightarrow> etype" where
  "element_type PathAnnotator = Path"
| "element_type PolyAnnotator = Polygons"
| "element_type PointAnnotator = Points"
| "element_type BoxAnnotator = Path"

text \<open>
  The annotations specification: a dict from column name to a value (for
  \<open>PathAnnotator\<close> a factory that is called), or a list of column names.
\<close>

datatype annots = AnnDict pydict | AnnList "string list"

text \<open>\<open>for col in annotations\<close>: the keys of a dict, the items of a list.\<close>

fun columns :: "annots \<Rightarrow> string list" where
  "columns (AnnDict d) = map fst d"
| "columns (AnnList cs) = cs"

text \<open>
  An annotator instance: its parameters, the bookkeeping of the parameter
  framework that \<open>preprocess\<close> touches, and its instance attributes. An
  attribute is \<open>None\<close> until a method assigns it (reading it then raises
  \<open>AttributeError\<close>); \<open>attr_X\<close> stands for \<open>self._X\<close>. The module reads
  \<open>self.element\<close>, \<open>self.output\<close>, \<open>self._poly_stream\<close> and
  \<open>self._point_selection\<close> but no statement of it assigns them.
  \<open>pname\<close> is \<open>param_name(self.name)\<close> and \<open>element_datatypes\<close> is
  \<open>self._element_type.datatype\<close>, both supplied by libraries.
\<close>

record annotator =
  kind :: akind
  pname :: string
  element_datatypes :: "string list"
  annotations :: annots
  vertex_annotations :: annots
  object :: "element option"
  num_objects :: "int option"
  opts :: pydict
  table_opts :: pydict
  table_transforms :: "(element option \<Rightarrow> element option) list"
  edit_vertices :: bool
  show_vertices :: bool
  vertex_style :: pydict
  batch_watch :: bool
  queued_watchers :: "string list"
  queued_events :: "string list"
  param_watchers :: "(string \<times> string) list"
  attr_tables :: "(string \<times> table) list"
  editor :: "(string \<times> table) list option"
  attr_selection :: "selection1d option"
  attr_stream :: "stream option"
  attr_vertex_stream :: "stream option"
  attr_table :: "table option"
  attr_vertex_table :: "table option"
  attr_links :: "(string \<times> link) list"
  plot :: "element option option"
  layout :: "string list"
  attr_element :: "element option"
  attr_output :: "element option"
  attr_poly_stream :: "stream option"
  attr_point_selection :: "selection1d option"

text \<open>\<open>self.object = element\<close> while change events are batched: the event is queued.\<close>

definition set_object :: "annotator \<Rightarrow> element \<Rightarrow> annotator" where
  "set_object self e =
     self\<lparr>object := Some e,
          queued_events := (if batch_watch self then queued_events self @ [''object'']
                            else queued_events self)\<rparr>"

text \<open>
  The loop over the declared columns: a column the element already has is
  skipped (and recorded in \<open>validate\<close>), any other is added with the value
  \<open>init col\<close>.
\<close>

fun add_annotation_columns ::
  "(string \<Rightarrow> error + pyval) \<Rightarrow> string list \<Rightarrow> element \<Rightarrow> string list
     \<Rightarrow> error + element \<times> string list" where
  "add_annotation_columns init [] el validate = Inr (el, validate)"
| "add_annotation_columns init (col # cols) el validate =
     (if contains el col then add_annotation_columns init cols el (validate @ [col])
      else case init col of
             Inl e \<Rightarrow> Inl e
           | Inr v \<Rightarrow>
               (case add_dimension el col v of
                  Inl e \<Rightarrow> Inl e
                | Inr el' \<Rightarrow> add_annotation_columns init cols el' validate))"

text \<open>\<open>self.annotations[col]() if isinstance(self.annotations, dict) else ''\<close>\<close>

fun path_init_value :: "annots \<Rightarrow> string \<Rightarrow> error + pyval" where
  "path_init_value (AnnDict d) col =
     (case map_of d col of None \<Rightarrow> Inl (KeyError col) | Some f \<Rightarrow> py_call f)"
| "path_init_value (AnnList cs) col = Inr (PStr [])"

text \<open>\<open>self.annotations[col] if isinstance(self.annotations, dict) else None\<close>\<close>

fun point_init_value :: "annots \<Rightarrow> string \<Rightarrow> error + pyval" where
  "point_init_value (AnnDict d) col =
     (case map_of d col of None \<Rightarrow> Inl (KeyError col) | Some f \<Rightarrow> Inr f)"
| "point_init_value (AnnList cs) col = Inr PNone"

text \<open>
  \<open>datatype = list(cls.datatype); datatype.remove('multitabular');
  datatype.append('multitabular')\<close>
\<close>

definition multitabular_last :: "string list \<Rightarrow> error + string list" where
  "multitabular_last dts =
     (if ''multitabular'' \<in> set dts
      then Inr (remove1 ''multitabular'' dts @ [''multitabular''])
      else Inl (ValueError RemoveMsg))"

text \<open>
  \<open>{c: self.element.dimension_values(c, expanded=False) for c in validate}\<close>.
  The values are read from the attribute \<open>self.element\<close>, not from the local
  \<open>element\<close>; with no column to validate the attribute is not read.
\<close>

fun poly_data :: "element option \<Rightarrow> string list \<Rightarrow> error + (string \<times> pyval list) list" where
  "poly_data self_element [] = Inr []"
| "poly_data self_element (c # cs) =
     (case self_element of
        None \<Rightarrow> Inl (AttributeError ''element'')
      | Some e \<Rightarrow>
          (case dimension_values_unexpanded e c of
             Inl err \<Rightarrow> Inl err
           | Inr vs \<Rightarrow>
               (case poly_data self_element cs of
                  Inl err \<Rightarrow> Inl err
                | Inr rest \<Rightarrow> Inr ((c, vs) # rest))))"

text \<open>\<open>validate and len(set(len(v) for v in poly_data.values())) != 1\<close>\<close>

definition varies_by_vertex :: "string list \<Rightarrow> (string \<times> pyval list) list \<Rightarrow> bool" where
  "varies_by_vertex validate pd =
     (validate \<noteq> [] \<and> length (remdups (map (\<lambda>cv. length (snd cv)) pd)) \<noteq> 1)"

definition PathAnnotator_init_element :: "annotator \<Rightarrow> element option \<Rightarrow> error + annotator" where
  "PathAnnotator_init_element self element =
     err_bind
       (case element of
          None \<Rightarrow> err_bind (multitabular_last (element_datatypes self))
                     (\<lambda>dts. Inr (new_element (element_type (kind self)) None dts))
        | Some e \<Rightarrow>
            if isinstance_element e (element_type (kind self)) then Inr e
            else err_bind (multitabular_last (element_datatypes self))
                   (\<lambda>dts. Inr (new_element (element_type (kind self)) (Some e) dts)))
       (\<lambda>el0. err_bind
          (add_annotation_columns (path_init_value (annotations self))
             (columns (annotations self)) el0 [])
       (\<lambda>r1. err_bind
          (add_annotation_columns (path_init_value (vertex_annotations self))
             (columns (vertex_annotations self)) (fst r1) [])
       (\<lambda>r2. err_bind (poly_data (attr_element self) (snd r1))
       (\<lambda>pd. if varies_by_vertex (snd r1) pd
             then Inl (ValueError (AnnotationsMsg (snd r1)))
             else err_bind
                    (dict_kwargs [(''tools'', PArr []), (''color_index'', PNone)] (opts self))
                    (\<lambda>kw. Inr (set_object self (with_options (fst r2) kw)))))))"

definition PointAnnotator_init_element :: "annotator \<Rightarrow> element option \<Rightarrow> error + annotator" where
  "PointAnnotator_init_element self obj =
     (let el0 = (case obj of
                   None \<Rightarrow> new_element (element_type (kind self)) None (element_datatypes self)
                 | Some e \<Rightarrow>
                     if isinstance_element e (element_type (kind self)) then e
                     else new_element (element_type (kind self)) (Some e)
                            (element_datatypes self))
      in err_bind
           (add_annotation_columns (point_init_value (annotations self))
              (columns (annotations self)) el0 [])
         (\<lambda>r1. err_bind (dict_kwargs [(''tools'', PArr [])] (opts self))
         (\<lambda>kw. Inr (set_object self (with_options (fst r1) kw)))))"

definition BoxAnnotator_init_element :: "annotator \<Rightarrow> element option \<Rightarrow> error + annotator" where
  "BoxAnnotator_init_element self element =
     (let el0 = (case element of
                   None \<Rightarrow> new_element (element_type (kind self)) None (element_datatypes self)
                 | Some e \<Rightarrow>
                     if isinstance_element e (element_type (kind self)) then e
                     else new_element (element_type (kind self)) (Some e)
                            (element_datatypes self))
      in err_bind
           (add_annotation_columns (point_init_value (annotations self))
              (columns (annotations self)) el0 [])
         (\<lambda>r1. err_bind (dict_kwargs [(''tools'', PArr [])] (opts self))
         (\<lambda>kw. Inr (set_object self (with_options (fst r1) kw)))))"

fun init_element :: "annotator \<Rightarrow> element option \<Rightarrow> error + annotator" where
  "init_element self obj =
     (case kind self of
        PathAnnotator \<Rightarrow> PathAnnotator_init_element self obj
      | PolyAnnotator \<Rightarrow> PathAnnotator_init_element self obj
      | PointAnnotator \<Rightarrow> PointAnnotator_init_element self obj
      | BoxAnnotator \<Rightarrow> BoxAnnotator_init_element self obj)"

text \<open>\<open>_table_data\<close>: the object after every table transform.\<close>

definition table_data_of :: "annotator \<Rightarrow> element option" where
  "table_data_of self = foldl (\<lambda>obj transform. transform obj) (object self) (table_transforms self)"

text \<open>\<open>[d.dimension_values(a, expanded=False)[0] for d in table_data]\<close>\<close>

fun first_values :: "element list \<Rightarrow> string \<Rightarrow> error + pyval list" where
  "first_values [] a = Inr []"
| "first_values (d # ds) a =
     (case dimension_values_unexpanded d a of
        Inl err \<Rightarrow> Inl err
      | Inr [] \<Rightarrow> Inl IndexError
      | Inr (v # vs) \<Rightarrow>
          (case first_values ds a of Inl err \<Rightarrow> Inl err | Inr rest \<Rightarrow> Inr (v # rest)))"

fun path_table_columns ::
  "element list \<Rightarrow> string list \<Rightarrow> error + (string \<times> pyval list) list" where
  "path_table_columns parts [] = Inr []"
| "path_table_columns parts (a # as) =
     (case first_values parts a of
        Inl err \<Rightarrow> Inl err
      | Inr vs \<Rightarrow>
          (case path_table_columns parts as of
             Inl err \<Rightarrow> Inl err
           | Inr rest \<Rightarrow> Inr ((a, vs) # rest)))"

definition new_stream ::
  "stream_kind \<Rightarrow> element option \<Rightarrow> int option \<Rightarrow> bool \<Rightarrow> string \<Rightarrow> pydict \<Rightarrow> stream" where
  "new_stream k src n sv tip vs =
     \<lparr>stream_kind = k, source = src, stream_data = [], stream_num_objects = n,
      stream_show_vertices = sv, tooltip = tip, stream_vertex_style = vs,
      subscribers = []\<rparr>"

definition PathAnnotator_init_table :: "annotator \<Rightarrow> error + annotator" where
  "PathAnnotator_init_table self =
     (let name = pname self;
          s1 = self\<lparr>attr_stream := Some (new_stream PolyDraw (object self) (num_objects self)
                        (show_vertices self) (name @ '' Tool'') (vertex_style self))\<rparr>;
          s2 = (if edit_vertices s1
                then s1\<lparr>attr_vertex_stream := Some (new_stream PolyEdit (object s1) None
                          False (name @ '' Edit Tool'') (vertex_style s1))\<rparr>
                else s1);
          anns = columns (annotations s2)
      in case table_data_of s2 of
           None \<Rightarrow> Inl (AttributeError ''split'')
         | Some td \<Rightarrow>
             err_bind (path_table_columns (split_element td) anns)
               (\<lambda>cols.
                  let t = table_with_opts
                            \<lparr>table_data = Columns cols, table_kdims = anns, table_vdims = [],
                             table_options = []\<rparr> (table_opts s2)
                  in case object s2 of
                       None \<Rightarrow> Inl (AttributeError ''kdims'')
                     | Some ob \<Rightarrow>
                         let vt = table_with_opts
                                    \<lparr>table_data = NoRows, table_kdims = kdims ob,
                                     table_vdims = columns (vertex_annotations s2),
                                     table_options = []\<rparr> (table_opts s2)
                         in Inr (s2\<lparr>attr_table := Some t,
                                    attr_vertex_table := Some vt,
                                    attr_links := [(''_link'', DataLink (object s2) t),
                                      (''_vertex_link'', VertexTableLink (object s2) vt)],
                                    attr_tables := [(name, t), (name @ '' Vertices'', vt)]\<rparr>)))"

text \<open>
  Modelled from the spec: \<open>Table(table_data)\<close>: a table over the element's
  own dimensions.
\<close>

definition table_of_element :: "element option \<Rightarrow> table" where
  "table_of_element td =
     (case td of
        None \<Rightarrow> \<lparr>table_data = NoRows, table_kdims = [], table_vdims = [], table_options = []\<rparr>
      | Some e \<Rightarrow> \<lparr>table_data = Rows e, table_kdims = kdims e, table_vdims = vdims e,
                   table_options = []\<rparr>)"

text \<open>
  Modelled from the spec: the dimensions argument of the \<open>Table\<close>
  constructor. \<open>BoxAnnotator._init_table\<close> passes \<open>self.annotations\<close>
  itself as the value dimensions: a list of names is taken, a mapping is
  rejected.
\<close>

fun table_dimensions :: "annots \<Rightarrow> error + string list" where
  "table_dimensions (AnnList cs) = Inr cs"
| "table_dimensions (AnnDict d) = Inl (LibraryError ''Table'')"

definition PointAnnotator_init_table :: "annotator \<Rightarrow> error + annotator" where
  "PointAnnotator_init_table self =
     (let name = pname self;
          s1 = self\<lparr>attr_stream := Some (new_stream PointDraw (object self) (num_objects self)
                        False (name @ '' Tool'') [])\<rparr>;
          t = table_with_opts (table_of_element (table_data_of s1)) (table_opts s1)
      in Inr (s1\<lparr>attr_table := Some t,
                 attr_links := [(''_point_link'', DataLink (object s1) t),
                   (''_point_selection_link'', SelectionLink (object s1) t)],
                 attr_tables := [(name, t)]\<rparr>))"

definition BoxAnnotator_init_table :: "annotator \<Rightarrow> error + annotator" where
  "BoxAnnotator_init_table self =
     (let name = pname self;
          s1 = self\<lparr>attr_stream := Some (new_stream BoxEdit (object self) (num_objects self)
                        False (name @ '' Tool'') [])\<rparr>
      in err_bind (table_dimensions (annotations s1))
           (\<lambda>vds.
              let t = table_with_opts
                        ((table_of_element (table_data_of s1))
                           \<lparr>table_kdims := [], table_vdims := vds\<rparr>)
                        (table_opts s1)
              in Inr (s1\<lparr>attr_table := Some t,
                         attr_links := [(''_point_link'', DataLink (object s1) t)],
                         attr_tables := [(name, t)]\<rparr>)))"

fun init_table :: "annotator \<Rightarrow> error + annotator" where
  "init_table self =
     (case kind self of
        PathAnnotator \<Rightarrow> PathAnnotator_init_table self
      | PolyAnnotator \<Rightarrow> PathAnnotator_init_table self
      | PointAnnotator \<Rightarrow> PointAnnotator_init_table self
      | BoxAnnotator \<Rightarrow> BoxAnnotator_init_table self)"

text \<open>The body of \<open>Annotator._initialize\<close>.\<close>

definition initialize_body :: "annotator \<Rightarrow> element option \<Rightarrow> error + annotator" where
  "initialize_body self obj =
     err_bind (init_element self (case obj of None \<Rightarrow> object self | Some e \<Rightarrow> Some e))
     (\<lambda>s1. err_bind (init_table s1)
     (\<lambda>s2. case attr_selection s2 of
             None \<Rightarrow> Inl (AttributeError ''_selection'')
           | Some sel \<Rightarrow>
               (case editor s2 of
                  None \<Rightarrow> Inl (AttributeError ''editor'')
                | Some tabs \<Rightarrow>
                    (case attr_stream s2 of
                       None \<Rightarrow> Inl (AttributeError ''_stream'')
                     | Some st \<Rightarrow>
                         Inr (s2\<lparr>attr_selection := Some (sel\<lparr>selection_source := object s2\<rparr>),
                                 editor := Some (attr_tables s2),
                                 attr_stream :=
                                   Some (add_subscriber st ''_update_element'')\<rparr>)))))"

text \<open>
  \<open>_initialize\<close> as decorated by \<open>preprocess\<close>: events are batched while the
  body runs and the queues are dropped afterwards.
\<close>

definition initialize :: "annotator \<Rightarrow> element option \<Rightarrow> error + annotator" where
  "initialize self obj =
     err_bind (initialize_body (self\<lparr>batch_watch := True\<rparr>) obj)
       (\<lambda>s. Inr (s\<lparr>batch_watch := False, queued_watchers := [], queued_events := []\<rparr>))"

text \<open>
  \<open>Annotator.__init__(object, **params)\<close>. \<open>self\<close> is the instance as the
  base class leaves it: the parameters hold the given or default values.
\<close>

definition Annotator_init :: "annotator \<Rightarrow> element option \<Rightarrow> error + annotator" where
  "Annotator_init self obj =
     err_bind
       (initialize
          (self\<lparr>object := obj, attr_tables := [], editor := Some [],
                attr_selection := Some \<lparr>selection_source = None, index = []\<rparr>\<rparr>) obj)
       (\<lambda>s. Inr (s\<lparr>plot := Some (object s), layout := [''plot'', ''editor'']\<rparr>))"

text \<open>\<open>Annotator._update_element\<close>, the subscriber of the stream.\<close>

definition Annotator_update_element :: "annotator \<Rightarrow> error + annotator" where
  "Annotator_update_element self =
     (case attr_stream self of
        None \<Rightarrow> Inl (AttributeError ''_stream'')
      | Some st \<Rightarrow> err_bind (stream_element st) (\<lambda>e. Inr (self\<lparr>object := Some e\<rparr>)))"

text \<open>\<open>if len(path[col]): path[col] = path[col][0]\<close> for every declared column.\<close>

fun collapse_path :: "string list \<Rightarrow> pydict \<Rightarrow> error + pydict" where
  "collapse_path [] path = Inr path"
| "collapse_path (col # cols) path =
     (case map_of path col of
        None \<Rightarrow> Inl (KeyError col)
      | Some v \<Rightarrow>
          (case py_len v of
             Inl err \<Rightarrow> Inl err
           | Inr n \<Rightarrow>
               if n \<noteq> 0
               then (case py_first v of
                       Inl err \<Rightarrow> Inl err
                     | Inr v0 \<Rightarrow> collapse_path cols (dict_set path col v0))
               else collapse_path cols path))"

fun collapse_paths :: "string list \<Rightarrow> pydict list \<Rightarrow> error + pydict list" where
  "collapse_paths cols [] = Inr []"
| "collapse_paths cols (p # ps) =
     (case collapse_path cols p of
        Inl err \<Rightarrow> Inl err
      | Inr p' \<Rightarrow>
          (case collapse_paths cols ps of Inl err \<Rightarrow> Inl err | Inr ps' \<Rightarrow> Inr (p' # ps')))"

text \<open>
  \<open>PathAnnotator._update_element\<close>. The data of an element are dicts in this
  model, so \<open>isinstance(element.data[0], dict)\<close> holds whenever there are data.
\<close>

definition PathAnnotator_update_element :: "annotator \<Rightarrow> error + annotator" where
  "PathAnnotator_update_element self =
     (case attr_poly_stream self of
        None \<Rightarrow> Inl (AttributeError ''_poly_stream'')
      | Some st \<Rightarrow>
          err_bind (stream_element st)
            (\<lambda>el. if interface_datatype el = ''multitabular'' \<and> data el \<noteq> []
                  then err_bind (collapse_paths (columns (annotations self)) (data el))
                         (\<lambda>d. Inr (self\<lparr>object := Some (el\<lparr>data := d\<rparr>)\<rparr>))
                  else Inr (self\<lparr>object := Some el\<rparr>)))"

fun update_element :: "annotator \<Rightarrow> error + annotator" where
  "update_element self =
     (case kind self of
        PathAnnotator \<Rightarrow> PathAnnotator_update_element self
      | PolyAnnotator \<Rightarrow> PathAnnotator_update_element self
      | PointAnnotator \<Rightarrow> Annotator_update_element self
      | BoxAnnotator \<Rightarrow> Annotator_update_element self)"

text \<open>\<open>[p for i, p in enumerate(parts) if i in index]\<close>\<close>

definition pick :: "nat list \<Rightarrow> 'a list \<Rightarrow> 'a list" where
  "pick idx parts = map snd (filter (\<lambda>ip. fst ip \<in> set idx) (enumerate 0 parts))"

text \<open>\<open>PathAnnotator.selected\<close> and, with the same body, \<open>BoxAnnotator.selected\<close>.\<close>

definition PathAnnotator_selected :: "annotator \<Rightarrow> error + element" where
  "PathAnnotator_selected self =
     (case attr_selection self of
        None \<Rightarrow> Inl (AttributeError ''_selection'')
      | Some sel \<Rightarrow>
          (case attr_stream self of
             None \<Rightarrow> Inl (AttributeError ''_stream'')
           | Some st \<Rightarrow>
               err_bind (stream_element st)
                 (\<lambda>el. case attr_output self of
                         None \<Rightarrow> Inl (AttributeError ''output'')
                       | Some out \<Rightarrow>
                           Inr (clone_element out (pick (index sel) (split_element el))))))"

definition BoxAnnotator_selected :: "annotator \<Rightarrow> error + element" where
  "BoxAnnotator_selected self =
     (case attr_selection self of
        None \<Rightarrow> Inl (AttributeError ''_selection'')
      | Some sel \<Rightarrow>
          (case attr_stream self of
             None \<Rightarrow> Inl (AttributeError ''_stream'')
           | Some st \<Rightarrow>
               err_bind (stream_element st)
                 (\<lambda>el. case attr_output self of
                         None \<Rightarrow> Inl (AttributeError ''output'')
                       | Some out \<Rightarrow>
                           Inr (clone_element out (pick (index sel) (split_element el))))))"

text \<open>\<open>PointAnnotator.selected\<close>: \<open>self.object.iloc[self._point_selection.index]\<close>\<close>

definition PointAnnotator_selected :: "annotator \<Rightarrow> error + element" where
  "PointAnnotator_selected self =
     (case object self of
        None \<Rightarrow> Inl (AttributeError ''iloc'')
      | Some ob \<Rightarrow>
          (case attr_point_selection self of
             None \<Rightarrow> Inl (AttributeError ''_point_selection'')
           | Some sel \<Rightarrow> iloc ob (index sel)))"

fun selected :: "annotator \<Rightarrow> error + element" where
  "selected self =
     (case kind self of
        PathAnnotator \<Rightarrow> PathAnnotator_selected self
      | PolyAnnotator \<Rightarrow> PathAnnotator_selected self
      | PointAnnotator \<Rightarrow> PointAnnotator_selected self
      | BoxAnnotator \<Rightarrow> BoxAnnotator_selected self)"

text \<open>
  An instance as the base class hands it to \<open>Annotator.__init__\<close>: the
  declared defaults of the parameters, the given annotations, no instance
  attribute assigned yet.
\<close>

definition default_opts :: "akind \<Rightarrow> pydict" where
  "default_opts k =
     [(''responsive'', PBool True), (''min_height'', PInt 400), (''padding'', PFloat (1 / 10))]
     @ (if k = PointAnnotator then [(''size'', PInt 10)] else [])"

definition new_annotator :: "akind \<Rightarrow> string \<Rightarrow> string list \<Rightarrow> annots \<Rightarrow> annots \<Rightarrow> annotator" where
  "new_annotator k name dts anns vanns =
     \<lparr>kind = k, pname = name, element_datatypes = dts, annotations = anns,
      vertex_annotations = vanns, object = None, num_objects = None,
      opts = default_opts k, table_opts = [(''editable'', PBool True)],
      table_transforms = [], edit_vertices = True, show_vertices = True,
      vertex_style = [(''nonselection_alpha'', PFloat (1 / 2))],
      batch_watch = False, queued_watchers = [], queued_events = [], param_watchers = [],
      attr_tables = [], editor = None, attr_selection = None, attr_stream = None,
      attr_vertex_stream = None, attr_table = None, attr_vertex_table = None,
      attr_links = [], plot = None, layout = [],
      attr_element = None, attr_output = None, attr_poly_stream = None,
      attr_point_selection = None\<rparr>"

section \<open>AnnotationManager (annotators.py)\<close>

text \<open>What a caller may hand to \<open>add_layer\<close>.\<close>

datatype layer = AnnotatorL annotator | ElementL element | OtherL pyval

record overlay =
  overlay_items :: "element list"
  collated :: bool
  overlay_opts :: pydict

text \<open>
  The manager instance. \<open>layers\<close> is \<open>None\<close> while the instance has no list
  of its own and reads the list object that \<open>param.List(default=[])\<close> created
  with the class; the content of that object is passed along with the
  instance, so that two instances can be seen to share it or not.
\<close>

record manager =
  layers :: "layer list option"
  mgr_opts :: pydict
  mgr_table_opts :: pydict
  mgr_plot :: "overlay option"
  mgr_editor :: "(string \<times> table) list option"
  mgr_layout :: "string list"

type_synonym mstate = "layer list \<times> manager"

definition new_manager :: manager where
  "new_manager =
     \<lparr>layers = None,
      mgr_opts = [(''responsive'', PBool True), (''min_height'', PInt 400)],
      mgr_table_opts = [(''width'', PInt 400)],
      mgr_plot = None, mgr_editor = None, mgr_layout = []\<rparr>"

text \<open>\<open>self.layers\<close>\<close>

definition get_layers :: "mstate \<Rightarrow> layer list" where
  "get_layers st = (case layers (snd st) of None \<Rightarrow> fst st | Some ls \<Rightarrow> ls)"

text \<open>\<open>self.layers.append(layer)\<close>: the list object is changed in place.\<close>

definition append_layer :: "mstate \<Rightarrow> layer \<Rightarrow> mstate" where
  "append_layer st l =
     (case layers (snd st) of
        None \<Rightarrow> (fst st @ [l], snd st)
      | Some ls \<Rightarrow> (fst st, (snd st)\<lparr>layers := Some (ls @ [l])\<rparr>))"

text \<open>
  \<open>param.Parameterized.__init__\<close>, library code: a parameter declared with
  \<open>instantiate=True\<close> gives every new instance a copy of its default, any
  other parameter leaves the instance reading the class default.
  \<open>param.List\<close> declares \<open>instantiate=True\<close>.
\<close>

definition Parameterized_init :: "bool \<Rightarrow> mstate \<Rightarrow> mstate" where
  "Parameterized_init instantiate st =
     (if instantiate then (fst st, (snd st)\<lparr>layers := Some (fst st)\<rparr>)
      else (fst st, (snd st)\<lparr>layers := None\<rparr>))"

definition List_instantiate :: bool where
  "List_instantiate = True"

text \<open>\<open>AnnotationManager._get_plot\<close>\<close>

fun plot_layers :: "layer list \<Rightarrow> error + element list" where
  "plot_layers [] = Inr []"
| "plot_layers (AnnotatorL a # ls) =
     (case attr_element a of
        None \<Rightarrow> Inl (AttributeError ''element'')
      | Some e \<Rightarrow> (case plot_layers ls of Inl err \<Rightarrow> Inl err | Inr es \<Rightarrow> Inr (e # es)))"
| "plot_layers (ElementL e # ls) =
     (case plot_layers ls of Inl err \<Rightarrow> Inl err | Inr es \<Rightarrow> Inr (e # es))"
| "plot_layers (OtherL v # ls) = Inl (LibraryError ''Overlay'')"

definition get_plot :: "mstate \<Rightarrow> error + overlay" where
  "get_plot st =
     err_bind (plot_layers (get_layers st))
       (\<lambda>es. Inr \<lparr>overlay_items = es, collated = (es \<noteq> []),
                  overlay_opts = mgr_opts (snd st)\<rparr>)"

text \<open>\<open>AnnotationManager._update_editor\<close>\<close>

fun layer_tables :: "pydict \<Rightarrow> layer \<Rightarrow> (string \<times> table) list" where
  "layer_tables topts (AnnotatorL a) =
     map (\<lambda>nt. (fst nt, table_with_opts (snd nt) topts)) (attr_tables a)"
| "layer_tables topts (ElementL e) = []"
| "layer_tables topts (OtherL v) = []"

definition update_editor :: "mstate \<Rightarrow> error + mstate" where
  "update_editor st =
     (let tables = concat (map (layer_tables (mgr_table_opts (snd st))) (get_layers st))
      in case mgr_editor (snd st) of
           None \<Rightarrow> Inl (AttributeError ''editor'')
         | Some tabs \<Rightarrow> Inr (fst st, (snd st)\<lparr>mgr_editor := Some tables\<rparr>))"

text \<open>
  Modelled from the spec: \<open>self.param.trigger('layers')\<close> is library code;
  section 4.5 says that on any change of the layer list the manager recomputes
  the tables of the editor and the combined overlay. The editor is the watcher
  declared by \<open>depends(..., watch=True)\<close>; the overlay is recomputed once the
  \<open>ParamMethod\<close> pane of \<open>_get_plot\<close> exists. The state is returned also when
  a recomputation raises.
\<close>

definition trigger_layers :: "mstate \<Rightarrow> error option \<times> mstate" where
  "trigger_layers st =
     (case update_editor st of
        Inl err \<Rightarrow> (Some err, st)
      | Inr st1 \<Rightarrow>
          (case mgr_plot (snd st1) of
             None \<Rightarrow> (None, st1)
           | Some old \<Rightarrow>
               (case get_plot st1 of
                  Inl err \<Rightarrow> (Some err, st1)
                | Inr ov \<Rightarrow> (None, (fst st1, (snd st1)\<lparr>mgr_plot := Some ov\<rparr>)))))"

text \<open>
  The parameters an annotator class declares in annotators.py, with the
  \<open>name\<close> that every parameterized object has. The base class of the panes
  adds parameters for layout and sizing, which the module never refers to;
  they are left out.
\<close>

fun parameter_names :: "akind \<Rightarrow> string list" where
  "parameter_names PathAnnotator =
     [''name'', ''annotations'', ''object'', ''num_objects'', ''opts'', ''table_transforms'',
      ''table_opts'', ''edit_vertices'', ''show_vertices'', ''vertex_annotations'',
      ''vertex_style'']"
| "parameter_names PolyAnnotator =
     [''name'', ''annotations'', ''object'', ''num_objects'', ''opts'', ''table_transforms'',
      ''table_opts'', ''edit_vertices'', ''show_vertices'', ''vertex_annotations'',
      ''vertex_style'']"
| "parameter_names PointAnnotator =
     [''name'', ''annotations'', ''object'', ''num_objects'', ''opts'', ''table_transforms'',
      ''table_opts'']"
| "parameter_names BoxAnnotator =
     [''name'', ''annotations'', ''object'', ''num_objects'', ''opts'', ''table_transforms'',
      ''table_opts'']"

text \<open>
  \<open>layer.param.watch(callback, name)\<close>, library code: the callback is
  registered for a parameter of the layer; a name that is no parameter of the
  layer's class is a \<open>ValueError\<close>.
\<close>

definition param_watch :: "annotator \<Rightarrow> string \<Rightarrow> string \<Rightarrow> error + annotator" where
  "param_watch a name callback =
     (if name \<in> set (parameter_names (kind a))
      then Inr (a\<lparr>param_watchers := param_watchers a @ [(name, callback)]\<rparr>)
      else Inl (ValueError (WatchMsg name)))"

text \<open>
  \<open>AnnotationManager.add_layer\<close>; the state is returned also when it
  raises. For an Annotator the first statement is
  \<open>layer.param.watch(lambda event: self.param.trigger('layers'), 'element')\<close>.
\<close>

fun add_layer :: "layer \<Rightarrow> mstate \<Rightarrow> error option \<times> mstate" where
  "add_layer (AnnotatorL a) st =
     (case param_watch a ''element'' ''trigger layers'' of
        Inl err \<Rightarrow> (Some err, st)
      | Inr a' \<Rightarrow> trigger_layers (append_layer st (AnnotatorL a')))"
| "add_layer (ElementL e) st = trigger_layers (append_layer st (ElementL e))"
| "add_layer (OtherL v) st = (Some (ValueError LayerMsg), st)"

text \<open>\<open>for layer in layers: self.add_layer(layer)\<close>, left at the first exception.\<close>

fun add_layers :: "layer list \<Rightarrow> mstate \<Rightarrow> error option \<times> mstate" where
  "add_layers [] st = (None, st)"
| "add_layers (l # ls) st =
     (case add_layer l st of
        (Some err, st1) \<Rightarrow> (Some err, st1)
      | (None, st1) \<Rightarrow> add_layers ls st1)"

text \<open>
  \<open>AnnotationManager.__init__(layers=[], **params)\<close>; creating the
  \<open>ParamMethod\<close> pane evaluates \<open>_get_plot\<close>.
\<close>

definition AnnotationManager_init :: "layer list \<Rightarrow> mstate \<Rightarrow> error option \<times> mstate" where
  "AnnotationManager_init layers_arg st =
     (case add_layers layers_arg (Parameterized_init List_instantiate st) of
        (Some err, st1) \<Rightarrow> (Some err, st1)
      | (None, st1) \<Rightarrow>
          (case get_plot st1 of
             Inl err \<Rightarrow> (Some err, st1)
           | Inr ov \<Rightarrow>
               (case update_editor
                       (fst st1, (snd st1)\<lparr>mgr_plot := Some ov, mgr_editor := Some []\<rparr>) of
                  Inl err \<Rightarrow>
                    (Some err, (fst st1, (snd st1)\<lparr>mgr_plot := Some ov, mgr_editor := Some []\<rparr>))
                | Inr st2 \<Rightarrow>
                    (None, (fst st2, (snd st2)\<lparr>mgr_layout := [''plot'', ''editor'']\<rparr>)))))"

section \<open>Example inputs\<close>

text \<open>
  One point at the origin; one path of two vertices without value dimensions;
  the same path with a value dimension \<open>label\<close> that differs between its
  two vertices; annotators as the constructor receives them.
\<close>

definition example_points :: element where
  "example_points =
     \<lparr>etype = Points, kdims = [''x'', ''y''], vdims = [],
      data = [[(''x'', PInt 0), (''y'', PInt 0)]],
      interface_datatype = ''dictionary'', options = []\<rparr>"

definition example_path :: element where
  "example_path =
     \<lparr>etype = Path, kdims = [''x'', ''y''], vdims = [],
      data = [[(''x'', PArr [PInt 0, PInt 1]), (''y'', PArr [PInt 0, PInt 1])]],
      interface_datatype = ''multitabular'', options = []\<rparr>"

definition varying_path :: element where
  "varying_path =
     \<lparr>etype = Path, kdims = [''x'', ''y''], vdims = [''label''],
      data = [[(''x'', PArr [PInt 0, PInt 1]), (''y'', PArr [PInt 0, PInt 1]),
               (''label'', PArr [PStr ''a'', PStr ''b''])]],
      interface_datatype = ''multitabular'', options = []\<rparr>"

definition path_annotator_params :: annotator where
  "path_annotator_params =
     new_annotator PathAnnotator ''PathAnnotator'' [''multitabular'', ''dictionary'']
       (AnnList [''label'']) (AnnList [])"

definition point_annotator_params :: annotator where
  "point_annotator_params =
     new_annotator PointAnnotator ''PointAnnotator'' [''dictionary'']
       (AnnDict [(''label'', PFun (PStr []))]) (AnnList [])"

definition box_annotator_params :: annotator where
  "box_annotator_params =
     new_annotator BoxAnnotator ''BoxAnnotator'' [''multitabular'', ''dictionary'']
       (AnnList []) (AnnList [])"

text \<open>
  Two managers constructed one after the other without a layers argument; the
  first component is the content of the default list object of the class.
\<close>

definition first_manager :: mstate where
  "first_manager = snd (AnnotationManager_init [] ([], new_manager))"

definition second_manager :: mstate where
  "second_manager = snd (AnnotationManager_init [] (fst first_manager, new_manager))"

lemmas library_defs =
  dict_set_def dict_update_def dict_kwargs_def isinstance_element_def new_element_def
  contains_def add_dimension_def with_options_def dimension_values_unexpanded_def
  split_element_def clone_element_def iloc_def table_with_opts_def stream_element_def
  add_subscriber_def

lemmas annotator_defs =
  err_bind_def set_object_def multitabular_last_def varies_by_vertex_def
  PathAnnotator_init_element_def PointAnnotator_init_element_def
  BoxAnnotator_init_element_def table_data_of_def new_stream_def
  PathAnnotator_init_table_def table_of_element_def PointAnnotator_init_table_def
  BoxAnnotator_init_table_def initialize_body_def initialize_def Annotator_init_def
  Annotator_update_element_def PathAnnotator_update_element_def pick_def
  PathAnnotator_selected_def BoxAnnotator_selected_def PointAnnotator_selected_def
  default_opts_def new_annotator_def

lemmas manager_defs =
  new_manager_def get_layers_def append_layer_def Parameterized_init_def
  List_instantiate_def get_plot_def update_editor_def trigger_layers_def
  param_watch_def AnnotationManager_init_def

lemmas example_defs =
  example_points_def example_path_def varying_path_def path_annotator_params_def
  point_annotator_params_def box_annotator_params_def

section \<open>Properties of the geometry adapters\<close>

subsection \<open>Rounding to float64\<close>







subsection \<open>One pair of corners\<close>












subsection \<open>The adapters\<close>






text \<open>
  C7. With \<open>invert_axes=True\<close> the segment adapter returns the columns of the
  key dimensions 1, 0, 3, 2 as x0, y0, x1, y1: exactly the arrays that the
  call with \<open>invert_axes=False\<close> returns as y0, x0, y1, x1, value for value;
  mapping and style are the same in both calls.
\<close>

theorem segment_invert_axes_swaps:
  "fst (SegmentPlot_get_data True element style) =
     \<lparr>seg_x0 = dimension_values element 1, seg_x1 = dimension_values element 3,
      seg_y0 = dimension_values element 0, seg_y1 = dimension_values element 2\<rparr>
   \<and> seg_x0 (fst (SegmentPlot_get_data True element style)) =
       seg_y0 (fst (SegmentPlot_get_data False element style))
   \<and> seg_y0 (fst (SegmentPlot_get_data True element style)) =
       seg_x0 (fst (SegmentPlot_get_data False element style))
   \<and> seg_x1 (fst (SegmentPlot_get_data True element style)) =
       seg_y1 (fst (SegmentPlot_get_data False element style))
   \<and> seg_y1 (fst (SegmentPlot_get_data True element style)) =
       seg_x1 (fst (SegmentPlot_get_data False element style))
   \<and> snd (SegmentPlot_get_data True element style) =
       snd (SegmentPlot_get_data False element style)"
  by (simp add: SegmentPlot_get_data_def inds_def)




section \<open>Properties of the annotation manager\<close>

lemma trigger_keeps_layers: "get_layers (snd (trigger_layers st)) = get_layers st"
  by (auto simp: trigger_layers_def update_editor_def get_layers_def Let_def
      split: sum.splits option.splits)

lemma trigger_keeps_default: "fst (snd (trigger_layers st)) = fst st"
  by (auto simp: trigger_layers_def update_editor_def Let_def
      split: sum.splits option.splits)

lemma trigger_keeps_own_list: "layers (snd (snd (trigger_layers st))) = layers (snd st)"
  by (auto simp: trigger_layers_def update_editor_def Let_def
      split: sum.splits option.splits)

lemma init_gives_own_list:
  "layers (snd (snd (AnnotationManager_init [] st))) = Some (fst st)
   \<and> fst (snd (AnnotationManager_init [] st)) = fst st"
  by (auto simp: AnnotationManager_init_def Parameterized_init_def List_instantiate_def
      update_editor_def get_plot_def err_bind_def Let_def split: sum.splits option.splits)

text \<open>
  C5, as stated, fails in the kind of the error: adding \<open>None\<close> to a
  constructed manager raises an exception of class \<open>ValueError\<close>, not of
  class \<open>TypeError\<close>.
\<close>

theorem add_layer_type_error_counterexample:
  "fst (add_layer (OtherL PNone) first_manager) = Some (ValueError LayerMsg)
   \<and> map_option is_type_error (fst (add_layer (OtherL PNone) first_manager)) = Some False"
  by simp

text \<open>
  C5, amended. For every object that is neither an Annotator nor an Element,
  \<open>add_layer\<close> raises a \<open>ValueError\<close> (not a \<open>TypeError\<close>) whose message
  says that the layer must be an Annotator subclass or an element, and the
  manager, its layers list included, is after the call exactly what it was
  before.
\<close>

theorem add_layer_rejects_other:
  "add_layer (OtherL v) st = (Some (ValueError LayerMsg), st)
   \<and> get_layers (snd (add_layer (OtherL v) st)) = get_layers st"
  by simp

text \<open>
  C2. For every Annotator and every manager, \<open>add_layer\<close> raises at its
  first statement: it asks the layer to watch the parameter \<open>element\<close>, and
  no Annotator class declares a parameter of that name (the element is the
  parameter \<open>object\<close>). The \<open>ValueError\<close> leaves the manager as it was:
  the layer is not appended and no subscription is registered.
\<close>

theorem add_layer_annotator_raises:
  "add_layer (AnnotatorL a) st = (Some (ValueError (WatchMsg ''element'')), st)
   \<and> get_layers (snd (add_layer (AnnotatorL a) st)) = get_layers st"
  by (cases "kind a") (simp_all add: param_watch_def)

text \<open>
  C10, as stated, fails: of two managers constructed without a layers
  argument, the first holds the element after \<open>add_layer\<close> and the second
  does not.
\<close>

theorem managers_share_layers_counterexample:
  "fst (AnnotationManager_init [] ([], new_manager)) = None
   \<and> fst (AnnotationManager_init [] (fst first_manager, new_manager)) = None
   \<and> fst (add_layer (ElementL example_points) (fst second_manager, snd first_manager)) = None
   \<and> ElementL example_points \<in> set (get_layers
         (snd (add_layer (ElementL example_points) (fst second_manager, snd first_manager))))
   \<and> ElementL example_points \<notin> set (get_layers
         (fst (snd (add_layer (ElementL example_points)
                      (fst second_manager, snd first_manager))), snd second_manager))"
  by (simp add: first_manager_def second_manager_def library_defs annotator_defs
      manager_defs example_defs Let_def)

text \<open>
  C10, amended. Every manager constructed without a layers argument holds a
  list of its own, a copy of the default: whatever the parameters of the two
  managers and whatever the element, \<open>add_layer\<close> on the first appends the
  element to the first manager's layers and leaves the layers of the second
  as they were.
\<close>

theorem managers_have_own_layers:
  "(let st1 = snd (AnnotationManager_init [] (cd, p1));
        st2 = snd (AnnotationManager_init [] (fst st1, p2));
        st3 = snd (add_layer (ElementL e) (fst st2, snd st1))
    in get_layers st3 = get_layers (fst st2, snd st1) @ [ElementL e]
       \<and> get_layers (fst st3, snd st2) = get_layers st2)"
proof -
  define st1 where "st1 = snd (AnnotationManager_init [] (cd, p1))"
  define st2 where "st2 = snd (AnnotationManager_init [] (fst st1, p2))"
  define st3 where "st3 = snd (add_layer (ElementL e) (fst st2, snd st1))"
  have own1: "layers (snd st1) = Some cd"
    using init_gives_own_list [of "(cd, p1)"] by (simp add: st1_def)
  have own2: "layers (snd st2) = Some (fst st1)"
    using init_gives_own_list [of "(fst st1, p2)"] by (simp add: st2_def)
  have "get_layers st3 = get_layers (append_layer (fst st2, snd st1) (ElementL e))"
    by (simp add: st3_def trigger_keeps_layers)
  also have "\<dots> = get_layers (fst st2, snd st1) @ [ElementL e]"
    using own1 by (simp add: append_layer_def get_layers_def)
  finally have first: "get_layers st3 = get_layers (fst st2, snd st1) @ [ElementL e]" .
  have second: "get_layers (fst st3, snd st2) = get_layers st2"
    using own2 by (simp add: get_layers_def)
  show ?thesis
    using first second by (simp add: st1_def st2_def st3_def Let_def)
qed

text \<open>
  For contrast: were the default not copied for each instance, the list
  object of the class would be the layers of both managers.
\<close>

lemma shared_default_without_copy:
  "get_layers (fst (append_layer (Parameterized_init False (cd, p1)) l),
               snd (Parameterized_init False (cd, p2))) = cd @ [l]"
  by (simp add: Parameterized_init_def append_layer_def get_layers_def)

section \<open>Properties of the annotators\<close>

subsection \<open>Dictionaries\<close>

text \<open>
  Updating a dict with the same keyword arguments a second time changes
  nothing: every key of the update is present after the first time and holds
  the last value given for it.
\<close>

lemma in_keys: "(k, v) \<in> set d \<Longrightarrow> k \<in> fst ` set d"
  by force

lemma dict_set_key_list:
  "map fst (dict_set d k v) = (if k \<in> fst ` set d then map fst d else map fst d @ [k])"
  by (induction d) (auto simp: dict_set_def)

lemma dict_set_keys: "fst ` set (dict_set d k v) = insert k (fst ` set d)"
proof -
  have "fst ` set (dict_set d k v) = set (map fst (dict_set d k v))" by simp
  also have "\<dots> = insert k (fst ` set d)"
    unfolding dict_set_key_list by auto
  finally show ?thesis .
qed

lemma dict_update_snoc: "dict_update d (kw @ [(k, v)]) = dict_set (dict_update d kw) k v"
  by (simp add: dict_update_def)

lemma dict_update_keys: "fst ` set (dict_update d kw) = fst ` set d \<union> fst ` set kw"
proof (induction kw rule: rev_induct)
  case Nil
  show ?case by (simp add: dict_update_def)
next
  case (snoc kv kw)
  obtain k v where kv: "kv = (k, v)" by (cases kv)
  show ?case
    unfolding kv dict_update_snoc dict_set_keys using snoc by auto
qed

lemma dict_set_member:
  "(k, v) \<in> set (dict_set d k' v') \<Longrightarrow> (k = k' \<and> v = v') \<or> (k \<noteq> k' \<and> (k, v) \<in> set d)"
  by (auto simp: dict_set_def dest: in_keys split: if_splits)

lemma dict_update_last_wins:
  "(k, v) \<in> set (dict_update d kw) \<Longrightarrow> k \<in> fst ` set kw \<Longrightarrow> map_of (rev kw) k = Some v"
proof (induction kw arbitrary: k v rule: rev_induct)
  case Nil
  then show ?case by simp
next
  case (snoc kv kw)
  obtain k' v' where kv: "kv = (k', v')" by (cases kv)
  from snoc.prems(1) have alt: "(k = k' \<and> v = v') \<or> (k \<noteq> k' \<and> (k, v) \<in> set (dict_update d kw))"
    unfolding kv dict_update_snoc by (rule dict_set_member)
  show ?case
  proof (cases "k = k'")
    case True
    with alt show ?thesis by (simp add: kv)
  next
    case False
    with alt have "(k, v) \<in> set (dict_update d kw)" by simp
    moreover from snoc.prems(2) False have "k \<in> fst ` set kw"
      by (auto simp: kv)
    ultimately have "map_of (rev kw) k = Some v" by (rule snoc.IH)
    then show ?thesis using False by (simp add: kv)
  qed
qed

lemma dict_update_present:
  "fst ` set kw \<subseteq> fst ` set d \<Longrightarrow>
   dict_update d kw =
     map (\<lambda>kv. case map_of (rev kw) (fst kv) of None \<Rightarrow> kv | Some v \<Rightarrow> (fst kv, v)) d"
proof (induction kw rule: rev_induct)
  case Nil
  show ?case by (simp add: dict_update_def)
next
  case (snoc kv kw)
  obtain k v where kv: "kv = (k, v)" by (cases kv)
  from snoc.prems have sub: "fst ` set kw \<subseteq> fst ` set d" and k: "k \<in> fst ` set d"
    by (auto simp: kv)
  have kin: "k \<in> fst ` set (dict_update d kw)"
    using k by (simp add: dict_update_keys)
  have "dict_set (dict_update d kw) k v =
        map (\<lambda>kv. if fst kv = k then (k, v) else kv) (dict_update d kw)"
    using kin by (simp add: dict_set_def)
  also have "\<dots> = map (\<lambda>kv. case map_of (rev (kw @ [(k, v)])) (fst kv) of
                              None \<Rightarrow> kv | Some v \<Rightarrow> (fst kv, v)) d"
    unfolding snoc.IH [OF sub] by (auto split: option.splits)
  finally show ?case unfolding kv dict_update_snoc .
qed

lemma dict_update_idem: "dict_update (dict_update d kw) kw = dict_update d kw"
proof -
  have sub: "fst ` set kw \<subseteq> fst ` set (dict_update d kw)"
    by (simp add: dict_update_keys)
  have "map (\<lambda>kv. case map_of (rev kw) (fst kv) of None \<Rightarrow> kv | Some v \<Rightarrow> (fst kv, v))
          (dict_update d kw) = dict_update d kw"
  proof (rule map_idI)
    fix kv assume mem: "kv \<in> set (dict_update d kw)"
    show "(case map_of (rev kw) (fst kv) of None \<Rightarrow> kv | Some v \<Rightarrow> (fst kv, v)) = kv"
    proof (cases "map_of (rev kw) (fst kv)")
      case None
      then show ?thesis by simp
    next
      case (Some v)
      then have "fst kv \<in> fst ` set kw"
        using map_of_eq_None_iff [of "rev kw" "fst kv"] by auto
      with mem have "map_of (rev kw) (fst kv) = Some (snd kv)"
        using dict_update_last_wins [of "fst kv" "snd kv" d kw] by simp
      with Some show ?thesis by (cases kv) simp
    qed
  qed
  then show ?thesis using dict_update_present [OF sub] by simp
qed

subsection \<open>The loop over the declared columns\<close>

text \<open>
  After the loop every declared column is a dimension of the element; a column
  that was absent holds the initial value of that column in every path or
  point; an element that has every declared column is left as it is.
\<close>

lemma add_dimension_frame:
  "add_dimension el c v = Inr el' \<Longrightarrow>
   vdims el' = c # vdims el \<and> kdims el' = kdims el \<and> etype el' = etype el
   \<and> interface_datatype el' = interface_datatype el \<and> options el' = options el"
  by (auto simp: add_dimension_def split: if_splits pyval.splits)

lemma contains_add_dimension:
  "add_dimension el c v = Inr el' \<Longrightarrow> contains el' c' = (c' = c \<or> contains el c')"
  using add_dimension_frame [of el c v el'] by (auto simp: contains_def)

lemma add_dimension_other:
  assumes "add_dimension el col y = Inr el'" and "col \<noteq> c"
    and "list_all (\<lambda>d. map_of d c = Some x) (data el)"
  shows "list_all (\<lambda>d. map_of d c = Some x) (data el')"
  using assms
  by (auto simp: add_dimension_def list_all_iff split: if_splits pyval.splits
      dest!: set_zip_leftD)

lemma add_dimension_same:
  assumes "add_dimension el c x = Inr el'"
    and "is_scalar x \<or> interface_datatype el \<noteq> ''multitabular''"
  shows "list_all (\<lambda>d. map_of d c = Some x) (data el')"
  using assms
  by (auto simp: add_dimension_def list_all_iff split: if_splits pyval.splits)

lemma loop_contains:
  "add_annotation_columns init cols el v = Inr r \<Longrightarrow> contains el c \<or> c \<in> set cols
     \<Longrightarrow> contains (fst r) c"
proof (induction cols arbitrary: el v)
  case Nil
  then show ?case by auto
next
  case (Cons col cols)
  show ?case
  proof (cases "contains el col")
    case True
    with Cons.prems have rest: "add_annotation_columns init cols el (v @ [col]) = Inr r"
      by simp
    from Cons.prems(2) True have "contains el c \<or> c \<in> set cols" by auto
    with rest show ?thesis by (rule Cons.IH)
  next
    case False
    with Cons.prems obtain x el' where x: "init col = Inr x"
      and added: "add_dimension el col x = Inr el'"
      and rest: "add_annotation_columns init cols el' v = Inr r"
      by (auto split: sum.splits)
    from Cons.prems(2) have "contains el' c \<or> c \<in> set cols"
      by (auto simp: contains_add_dimension [OF added])
    with rest show ?thesis by (rule Cons.IH)
  qed
qed

lemma loop_skips_present:
  "list_all (contains el) cols \<Longrightarrow> add_annotation_columns init cols el v = Inr (el, v @ cols)"
  by (induction cols arbitrary: v) simp_all

lemma loop_frame:
  "add_annotation_columns init cols el v = Inr r \<Longrightarrow>
   etype (fst r) = etype el \<and> interface_datatype (fst r) = interface_datatype el"
proof (induction cols arbitrary: el v)
  case Nil
  then show ?case by auto
next
  case (Cons col cols)
  show ?case
  proof (cases "contains el col")
    case True
    with Cons.prems show ?thesis by (auto dest: Cons.IH)
  next
    case False
    with Cons.prems obtain x el' where
      added: "add_dimension el col x = Inr el'"
      and rest: "add_annotation_columns init cols el' v = Inr r"
      by (auto split: sum.splits)
    from Cons.IH [OF rest] add_dimension_frame [OF added] show ?thesis by simp
  qed
qed

lemma loop_keeps_type:
  "add_annotation_columns init cols el v = Inr r \<Longrightarrow> etype (fst r) = etype el"
  using loop_frame by blast

lemma loop_keeps_value:
  "add_annotation_columns init cols el v = Inr r \<Longrightarrow> contains el c \<Longrightarrow>
   list_all (\<lambda>d. map_of d c = Some x) (data el) \<Longrightarrow>
   list_all (\<lambda>d. map_of d c = Some x) (data (fst r))"
proof (induction cols arbitrary: el v)
  case Nil
  then show ?case by auto
next
  case (Cons col cols)
  show ?case
  proof (cases "contains el col")
    case True
    with Cons.prems(1) have "add_annotation_columns init cols el (v @ [col]) = Inr r" by simp
    from Cons.IH [OF this Cons.prems(2,3)] show ?thesis .
  next
    case False
    with Cons.prems(1) obtain y el' where
      added: "add_dimension el col y = Inr el'"
      and rest: "add_annotation_columns init cols el' v = Inr r"
      by (auto split: sum.splits)
    from False Cons.prems(2) have ne: "col \<noteq> c" by auto
    have "contains el' c"
      using Cons.prems(2) by (simp add: contains_add_dimension [OF added])
    moreover have "list_all (\<lambda>d. map_of d c = Some x) (data el')"
      using added ne Cons.prems(3) by (rule add_dimension_other)
    ultimately show ?thesis using rest Cons.IH by blast
  qed
qed

lemma loop_adds_value:
  "add_annotation_columns init cols el v = Inr r \<Longrightarrow> c \<in> set cols \<Longrightarrow> \<not> contains el c \<Longrightarrow>
   \<exists>x. init c = Inr x \<and>
     (is_scalar x \<or> interface_datatype el \<noteq> ''multitabular''
        \<longrightarrow> list_all (\<lambda>d. map_of d c = Some x) (data (fst r)))"
proof (induction cols arbitrary: el v)
  case Nil
  then show ?case by simp
next
  case (Cons col cols)
  show ?case
  proof (cases "contains el col")
    case True
    with Cons.prems(1) have rest: "add_annotation_columns init cols el (v @ [col]) = Inr r"
      by simp
    from True Cons.prems(2,3) have "c \<in> set cols" by auto
    from Cons.IH [OF rest this Cons.prems(3)] show ?thesis .
  next
    case False
    with Cons.prems(1) obtain y el' where y: "init col = Inr y"
      and added: "add_dimension el col y = Inr el'"
      and rest: "add_annotation_columns init cols el' v = Inr r"
      by (auto split: sum.splits)
    have same: "interface_datatype el' = interface_datatype el"
      using add_dimension_frame [OF added] by simp
    show ?thesis
    proof (cases "col = c")
      case True
      have here: "contains el' c"
        by (simp add: True contains_add_dimension [OF added])
      have "list_all (\<lambda>d. map_of d c = Some y) (data (fst r))"
        if "is_scalar y \<or> interface_datatype el \<noteq> ''multitabular''"
      proof -
        from added that have "list_all (\<lambda>d. map_of d c = Some y) (data el')"
          unfolding True by (rule add_dimension_same)
        with rest here show ?thesis by (rule loop_keeps_value)
      qed
      with y True show ?thesis by auto
    next
      case ne: False
      with Cons.prems(2) have "c \<in> set cols" by auto
      moreover have "\<not> contains el' c"
        using Cons.prems(3) ne by (simp add: contains_add_dimension [OF added])
      ultimately show ?thesis using rest Cons.IH same by metis
    qed
  qed
qed

text \<open>
  What the fill value of an absent column is when the annotations are a
  mapping: for a \<open>PathAnnotator\<close> the result of calling the mapped factory
  (stated for a scalar result, which every path receives), for a
  \<open>PointAnnotator\<close> on tabular data the mapped object itself.
\<close>

lemma path_factory_called:
  assumes init: "PathAnnotator_init_element self (Some el) = Inr s1"
    and inst: "isinstance_element el (element_type (kind self))"
    and dict: "annotations self = AnnDict d"
    and c: "map_of d c = Some f"
    and absent: "\<not> contains el c"
  shows "\<exists>ob x. object s1 = Some ob \<and> contains ob c \<and> py_call f = Inr x
           \<and> (is_scalar x \<longrightarrow> list_all (\<lambda>p. map_of p c = Some x) (data ob))"
proof -
  from init inst obtain r1 r2 kw where
    l1: "add_annotation_columns (path_init_value (annotations self))
           (columns (annotations self)) el [] = Inr r1"
    and l2: "add_annotation_columns (path_init_value (vertex_annotations self))
           (columns (vertex_annotations self)) (fst r1) [] = Inr r2"
    and s1: "s1 = set_object self (with_options (fst r2) kw)"
    by (auto simp: PathAnnotator_init_element_def err_bind_def split: sum.splits if_splits)
  from c have cin: "c \<in> set (columns (annotations self))"
    by (auto simp: dict dest: map_of_SomeD intro: rev_image_eqI)
  from loop_adds_value [OF l1 cin absent] c obtain x where
    x: "py_call f = Inr x"
    and v1: "is_scalar x \<Longrightarrow> list_all (\<lambda>p. map_of p c = Some x) (data (fst r1))"
    by (auto simp: dict)
  have c1: "contains (fst r1) c"
    using loop_contains [OF l1] cin by blast
  have c2: "contains (fst r2) c"
    using loop_contains [OF l2] c1 by blast
  have v2: "list_all (\<lambda>p. map_of p c = Some x) (data (fst r2))" if "is_scalar x"
    using loop_keeps_value [OF l2 c1 v1 [OF that]] .
  show ?thesis
    using s1 x c2 v2 by (auto simp: set_object_def with_options_def contains_def)
qed

lemma point_factory_stored:
  assumes init: "PointAnnotator_init_element self (Some el) = Inr s1"
    and inst: "isinstance_element el (element_type (kind self))"
    and tabular: "interface_datatype el \<noteq> ''multitabular''"
    and dict: "annotations self = AnnDict d"
    and c: "map_of d c = Some f"
    and absent: "\<not> contains el c"
  shows "\<exists>ob. object s1 = Some ob \<and> contains ob c
           \<and> list_all (\<lambda>p. map_of p c = Some f) (data ob)"
proof -
  from init inst obtain r1 kw where
    l1: "add_annotation_columns (point_init_value (annotations self))
           (columns (annotations self)) el [] = Inr r1"
    and s1: "s1 = set_object self (with_options (fst r1) kw)"
    by (auto simp: PointAnnotator_init_element_def err_bind_def Let_def split: sum.splits)
  from c have cin: "c \<in> set (columns (annotations self))"
    by (auto simp: dict dest: map_of_SomeD intro: rev_image_eqI)
  from loop_adds_value [OF l1 cin absent] c tabular
  have v1: "list_all (\<lambda>p. map_of p c = Some f) (data (fst r1))"
    by (auto simp: dict)
  have c1: "contains (fst r1) c"
    using loop_contains [OF l1] cin by blast
  show ?thesis
    using s1 c1 v1 by (simp add: set_object_def with_options_def contains_def)
qed

subsection \<open>Replaying the initialization\<close>

text \<open>
  For a \<open>PointAnnotator\<close> and a \<open>BoxAnnotator\<close> a replay of \<open>_initialize\<close>
  with unchanged parameters reproduces the state of the first run: the
  element already has every declared column, the same options are set again,
  and stream, table and links are built from the same element.
\<close>

lemma with_options_idem: "with_options (with_options el kw) kw = with_options el kw"
  by (simp add: with_options_def dict_update_idem)

lemma contains_with_options: "contains (with_options el kw) c = contains el c"
  by (simp add: with_options_def contains_def)

lemma init_element_replay:
  assumes "PointAnnotator_init_element self obj = Inr s1"
  shows "\<exists>ob. s1 = set_object self ob \<and>
           (\<forall>s'. kind s' = kind self \<longrightarrow> annotations s' = annotations self \<longrightarrow>
                 opts s' = opts self \<longrightarrow>
                 PointAnnotator_init_element s' (Some ob) = Inr (set_object s' ob))"
proof -
  let ?cls = "element_type (kind self)"
  define el0 where "el0 = (case obj of
       None \<Rightarrow> new_element ?cls None (element_datatypes self)
     | Some e \<Rightarrow> if isinstance_element e ?cls then e
                 else new_element ?cls (Some e) (element_datatypes self))"
  have inst0: "isinstance_element el0 ?cls"
    by (auto simp: el0_def isinstance_element_def new_element_def Let_def split: option.splits)
  from assms obtain r1 kw where
    loop: "add_annotation_columns (point_init_value (annotations self))
             (columns (annotations self)) el0 [] = Inr r1"
    and kw: "dict_kwargs [(''tools'', PArr [])] (opts self) = Inr kw"
    and s1: "s1 = set_object self (with_options (fst r1) kw)"
    by (auto simp: PointAnnotator_init_element_def err_bind_def Let_def el0_def
        split: sum.splits)
  define ob where "ob = with_options (fst r1) kw"
  have ty: "etype ob = etype el0"
    using loop_keeps_type [OF loop] by (simp add: ob_def with_options_def)
  have inst: "isinstance_element ob ?cls"
    using inst0 ty by (simp add: isinstance_element_def)
  have present: "list_all (contains ob) (columns (annotations self))"
    unfolding list_all_iff ob_def contains_with_options
    using loop_contains [OF loop] by blast
  have fixed: "with_options ob kw = ob"
    by (simp add: ob_def with_options_idem)
  have "PointAnnotator_init_element s' (Some ob) = Inr (set_object s' ob)"
    if "kind s' = kind self" "annotations s' = annotations self" "opts s' = opts self" for s'
    using that inst kw fixed
    by (simp add: PointAnnotator_init_element_def err_bind_def Let_def
        loop_skips_present [OF present])
  then show ?thesis using s1 ob_def by blast
qed

lemma point_reinitialize_idempotent:
  assumes k: "kind a = PointAnnotator" and init: "initialize a None = Inr a1"
  shows "initialize a1 None = Inr a1"
proof -
  from init k obtain s1 where
    e1: "PointAnnotator_init_element (a\<lparr>batch_watch := True\<rparr>) (object a) = Inr s1"
    by (auto simp: initialize_def initialize_body_def err_bind_def split: sum.splits option.splits)
  from init_element_replay [OF e1] obtain ob where
    s1: "s1 = set_object (a\<lparr>batch_watch := True\<rparr>) ob"
    and replay: "\<And>s'. kind s' = kind a \<Longrightarrow> annotations s' = annotations a \<Longrightarrow>
       opts s' = opts a \<Longrightarrow> PointAnnotator_init_element s' (Some ob) = Inr (set_object s' ob)"
    by auto
  from init k e1 s1 obtain sel tabs where
    sel: "attr_selection a = Some sel" and tabs: "editor a = Some tabs"
    by (auto simp: initialize_def initialize_body_def err_bind_def
        PointAnnotator_init_table_def Let_def set_object_def split: option.splits)
  from init k e1 s1 sel tabs have a1: "a1 =
      a\<lparr>object := Some ob,
        attr_stream := Some (add_subscriber (new_stream PointDraw (Some ob) (num_objects a)
            False (pname a @ '' Tool'') []) ''_update_element''),
        attr_table := Some (table_with_opts (table_of_element
            (foldl (\<lambda>obj transform. transform obj) (Some ob) (table_transforms a))) (table_opts a)),
        attr_links := [(''_point_link'', DataLink (Some ob) (table_with_opts (table_of_element
            (foldl (\<lambda>obj transform. transform obj) (Some ob) (table_transforms a))) (table_opts a))),
          (''_point_selection_link'', SelectionLink (Some ob) (table_with_opts (table_of_element
            (foldl (\<lambda>obj transform. transform obj) (Some ob) (table_transforms a))) (table_opts a)))],
        attr_tables := [(pname a, table_with_opts (table_of_element
            (foldl (\<lambda>obj transform. transform obj) (Some ob) (table_transforms a))) (table_opts a))],
        attr_selection := Some (sel\<lparr>selection_source := Some ob\<rparr>),
        editor := Some [(pname a, table_with_opts (table_of_element
            (foldl (\<lambda>obj transform. transform obj) (Some ob) (table_transforms a))) (table_opts a))],
        batch_watch := False, queued_watchers := [], queued_events := []\<rparr>"
    by (cases a)
       (simp add: initialize_def initialize_body_def err_bind_def
          PointAnnotator_init_table_def Let_def set_object_def table_data_of_def)
  have r: "PointAnnotator_init_element (a1\<lparr>batch_watch := True\<rparr>) (Some ob)
      = Inr (set_object (a1\<lparr>batch_watch := True\<rparr>) ob)"
    by (rule replay) (simp_all add: a1)
  have ob1: "object a1 = Some ob" and k1: "kind a1 = PointAnnotator"
    using k by (simp_all add: a1)
  show ?thesis
    unfolding initialize_def initialize_body_def
    using r ob1 k1
    apply (simp add: err_bind_def)
    apply (cases a)
    apply (simp add: a1 PointAnnotator_init_table_def Let_def set_object_def table_data_of_def)
    done
qed

lemma box_init_element_eq: "BoxAnnotator_init_element = PointAnnotator_init_element"
  by (intro ext) (simp add: BoxAnnotator_init_element_def PointAnnotator_init_element_def)

lemma box_reinitialize_idempotent:
  assumes k: "kind a = BoxAnnotator" and init: "initialize a None = Inr a1"
  shows "initialize a1 None = Inr a1"
proof -
  from init k obtain s1 where
    e1: "PointAnnotator_init_element (a\<lparr>batch_watch := True\<rparr>) (object a) = Inr s1"
    by (auto simp: initialize_def initialize_body_def err_bind_def box_init_element_eq
        split: sum.splits option.splits)
  from init_element_replay [OF e1] obtain ob where
    s1: "s1 = set_object (a\<lparr>batch_watch := True\<rparr>) ob"
    and replay: "\<And>s'. kind s' = kind a \<Longrightarrow> annotations s' = annotations a \<Longrightarrow>
       opts s' = opts a \<Longrightarrow> PointAnnotator_init_element s' (Some ob) = Inr (set_object s' ob)"
    by auto
  from init k e1 s1 obtain cs where cs: "annotations a = AnnList cs"
    by (cases "annotations a")
       (auto simp: initialize_def initialize_body_def err_bind_def box_init_element_eq
          BoxAnnotator_init_table_def Let_def set_object_def split: option.splits)
  from init k e1 s1 cs obtain sel tabs where
    sel: "attr_selection a = Some sel" and tabs: "editor a = Some tabs"
    by (auto simp: initialize_def initialize_body_def err_bind_def box_init_element_eq
        BoxAnnotator_init_table_def Let_def set_object_def split: option.splits)
  define t where "t = table_with_opts
      ((table_of_element (foldl (\<lambda>obj transform. transform obj) (Some ob) (table_transforms a)))
         \<lparr>table_kdims := [], table_vdims := cs\<rparr>) (table_opts a)"
  from init k e1 s1 sel tabs cs have a1: "a1 =
      a\<lparr>object := Some ob,
        attr_stream := Some (add_subscriber (new_stream BoxEdit (Some ob) (num_objects a)
            False (pname a @ '' Tool'') []) ''_update_element''),
        attr_table := Some t,
        attr_links := [(''_point_link'', DataLink (Some ob) t)],
        attr_tables := [(pname a, t)],
        attr_selection := Some (sel\<lparr>selection_source := Some ob\<rparr>),
        editor := Some [(pname a, t)],
        batch_watch := False, queued_watchers := [], queued_events := []\<rparr>"
    by (cases a)
       (simp add: initialize_def initialize_body_def err_bind_def box_init_element_eq t_def
          BoxAnnotator_init_table_def Let_def set_object_def table_data_of_def)
  have r: "PointAnnotator_init_element (a1\<lparr>batch_watch := True\<rparr>) (Some ob)
      = Inr (set_object (a1\<lparr>batch_watch := True\<rparr>) ob)"
    by (rule replay) (simp_all add: a1)
  have ob1: "object a1 = Some ob" and k1: "kind a1 = BoxAnnotator"
    and an1: "table_dimensions (annotations a1) = Inr cs"
    using k cs by (simp_all add: a1)
  show ?thesis
    unfolding initialize_def initialize_body_def
    using r ob1 k1 cs an1
    apply (simp add: err_bind_def box_init_element_eq)
    apply (cases a)
    apply (simp add: a1 t_def BoxAnnotator_init_table_def Let_def set_object_def table_data_of_def
        err_bind_def)
    done
qed

lemma point_box_reinitialize_idempotent:
  "kind a = PointAnnotator \<or> kind a = BoxAnnotator \<Longrightarrow> initialize a None = Inr a1
     \<Longrightarrow> initialize a1 None = Inr a1"
  using point_reinitialize_idempotent box_reinitialize_idempotent by blast

subsection \<open>The claims about the annotators\<close>

text \<open>With a single column to validate the check never fires.\<close>

lemma single_column_passes:
  "poly_data self_element [c] = Inr pd \<Longrightarrow> \<not> varies_by_vertex [c] pd"
  by (auto simp: varies_by_vertex_def split: option.splits sum.splits)

text \<open>
  C1. A \<open>PathAnnotator\<close> whose declared column \<open>label\<close> is present on the
  element and differs between the two vertices of its path: whatever the
  attribute \<open>self.element\<close> holds, \<open>_init_element\<close> does not raise the
  validation error, and when the attribute holds the element itself the
  initialization succeeds.
\<close>

theorem path_varying_column_not_rejected:
  "PathAnnotator_init_element (path_annotator_params\<lparr>attr_element := ea\<rparr>) (Some varying_path)
     \<noteq> Inl (ValueError (AnnotationsMsg msg))
   \<and> \<not> isl (PathAnnotator_init_element
               (path_annotator_params\<lparr>attr_element := Some varying_path\<rparr>) (Some varying_path))"
  by (cases ea) (auto simp: library_defs annotator_defs example_defs Let_def split: sum.splits)

text \<open>
  C4. A \<open>PointAnnotator\<close> initialized with the mapping \<open>label \<mapsto> str\<close>: the
  column \<open>label\<close> exists on the initialized element, but its fill value is
  the factory itself, not the empty string that calling the factory returns.
\<close>

theorem point_factory_not_called:
  "\<not> isl (Annotator_init point_annotator_params (Some example_points))
   \<and> map_option (\<lambda>ob. (vdims ob, map (\<lambda>d. map_of d ''label'') (data ob)))
       (object (projr (Annotator_init point_annotator_params (Some example_points))))
     = Some ([''label''], [Some (PFun (PStr []))])
   \<and> py_call (PFun (PStr [])) = Inr (PStr [])"
  by (simp add: library_defs annotator_defs example_defs Let_def)

text \<open>
  C6. After the construction of a \<open>PathAnnotator\<close> the stream is stored in
  \<open>self._stream\<close>; \<open>_update_element\<close> reads \<open>self._poly_stream\<close>, which is
  never assigned, and raises \<open>AttributeError\<close> instead of committing the
  snapshot of the stream.
\<close>

theorem path_update_element_raises:
  "\<not> isl (Annotator_init path_annotator_params (Some example_path))
   \<and> attr_stream (projr (Annotator_init path_annotator_params (Some example_path))) \<noteq> None
   \<and> update_element (projr (Annotator_init path_annotator_params (Some example_path)))
       = Inl (AttributeError ''_poly_stream'')"
  by (simp add: library_defs annotator_defs example_defs Let_def)

text \<open>
  C8. A \<open>PathAnnotator\<close> with the annotation column \<open>label\<close> on a path
  without that column: the construction succeeds and adds the column;
  replaying \<open>_initialize\<close> with unchanged parameters then finds the column
  present, reads \<open>self.element\<close> and raises \<open>AttributeError\<close>.
\<close>

theorem path_reinitialize_raises:
  "\<not> isl (Annotator_init path_annotator_params (Some example_path))
   \<and> initialize (projr (Annotator_init path_annotator_params (Some example_path))) None
       = Inl (AttributeError ''element'')"
  by (simp add: library_defs annotator_defs example_defs Let_def)

text \<open>
  C9. Reading \<open>selected\<close> on a constructed \<open>PathAnnotator\<close>,
  \<open>PointAnnotator\<close> or \<open>BoxAnnotator\<close> raises \<open>AttributeError\<close>: the
  property reads \<open>self.output\<close>, respectively \<open>self._point_selection\<close>,
  which are never assigned.
\<close>

theorem selected_raises:
  "\<not> isl (Annotator_init path_annotator_params (Some example_path))
   \<and> selected (projr (Annotator_init path_annotator_params (Some example_path)))
       = Inl (AttributeError ''output'')
   \<and> \<not> isl (Annotator_init point_annotator_params (Some example_points))
   \<and> selected (projr (Annotator_init point_annotator_params (Some example_points)))
       = Inl (AttributeError ''_point_selection'')
   \<and> \<not> isl (Annotator_init box_annotator_params (Some example_path))
   \<and> selected (projr (Annotator_init box_annotator_params (Some example_path)))
       = Inl (AttributeError ''output'')"
  by (simp add: library_defs annotator_defs example_defs Let_def)

end
